theory Spec2Isabelle
  imports Main
begin

section \<open>The Signal protocol demo: SignalProtocolDemo.js\<close>

text \<open>
  The demo has two classes, \<open>SignalServerStore\<close> and
  \<open>SignalProtocolManager\<close>, and the function \<open>runDemo\<close>.
  Everything cryptographic is done by the libsignal library and its in-memory store,
  which the demo only calls. The embedding keeps the two layers apart: the classes of
  the demo are translated from the source line by line; the library they call is
  modelled from the specification over symbolic keys.
\<close>

subsection \<open>Keys and symbolic cryptography\<close>

text \<open>
  Modelled from the spec: the primitives behind libsignal (key generation, signatures,
  Diffie-Hellman, the key-derivation function, the keyed hash of the chain and the
  authenticated cipher), which are not in the sources. They are symbolic: a key pair is
  the number it was generated from, a signature, a derived key or a ciphertext is the
  term that records how it was made, and two of them are equal only when they were made
  the same way. Diffie-Hellman is the one operation with an equation: the two parties
  obtain the same secret.
\<close>

datatype privkey = Priv nat

datatype pubkey = Pub nat

record keypair =
  pubKey :: pubkey
  privKey :: privkey

definition createKeyPair :: "nat \<Rightarrow> keypair" where
  "createKeyPair n = \<lparr>pubKey = Pub n, privKey = Priv n\<rparr>"

datatype signature = Ed25519Sign privkey pubkey

fun Ed25519Verify :: "pubkey \<Rightarrow> pubkey \<Rightarrow> signature \<Rightarrow> bool" where
  "Ed25519Verify (Pub i) msg (Ed25519Sign (Priv j) msg') = (i = j \<and> msg = msg')"

datatype secret = DH nat nat

fun dh :: "privkey \<Rightarrow> pubkey \<Rightarrow> secret" where
  "dh (Priv a) (Pub b) = DH (min a b) (max a b)"

datatype rootkey = KDF "secret list" | KDFRatchet rootkey secret

datatype chainkey = ChainKey rootkey | HMAC_chain chainkey

datatype messagekey = HMAC_msg chainkey

text \<open>
  Modelled from the spec: section 4.4, \<open>advanceChain(chainKey) -> (nextChainKey,
  messageKey)\<close> with \<open>messageKey = HMAC(chainKey, "msg")\<close> and
  \<open>nextChainKey = HMAC(chainKey, "chain")\<close>.
\<close>

definition advanceChain :: "chainkey \<Rightarrow> chainkey \<times> messagekey" where
  "advanceChain ck = (HMAC_chain ck, HMAC_msg ck)"

datatype ciphertext = AEAD messagekey string

fun aeadOpen :: "messagekey \<Rightarrow> ciphertext \<Rightarrow> string option" where
  "aeadOpen k (AEAD k' plaintext) = (if k = k' then Some plaintext else None)"

subsection \<open>Pre-key bundles and the dummy server\<close>

text \<open>
  The object that \<open>_generatePreKeyBundleAsync\<close> returns.
  \<open>registrationId\<close> is what \<open>getLocalRegistrationId\<close> gave,
  which is \<open>undefined\<close> (here \<open>None\<close>) on a store that holds
  none.
\<close>

record preKeyPublic =
  keyId :: nat
  publicKey :: pubkey

record signedPreKeyPublic = preKeyPublic +
  signature :: signature

record preKeyBundle =
  identityKey :: pubkey
  registrationId :: "nat option"
  preKey :: preKeyPublic
  signedPreKey :: signedPreKeyPublic

text \<open>
  \<open>SignalServerStore\<close> keeps the bundles in a plain JavaScript object,
  \<open>this.store = {}\<close>, read and written by \<open>this.store[userId]\<close>.
  Such an object is not a bare dictionary: it inherits the properties of
  \<open>Object.prototype\<close>, and its property \<open>__proto__\<close> is an
  accessor that reads and replaces the prototype. The model keeps both: the own
  properties, and the prototype (\<open>None\<close> for
  \<open>Object.prototype\<close>, \<open>Some b\<close> once a bundle \<open>b\<close>
  has been assigned to \<open>__proto__\<close>). A read can therefore return other
  values than a bundle or \<open>undefined\<close>.
\<close>

datatype jsvalue =
    Undefined
  | BundleV preKeyBundle
  | ObjectPrototypeV
  | FunctionV string
  | ArrayBufferV pubkey
  | NumberV nat
  | PreKeyV preKeyPublic
  | SignedPreKeyV signedPreKeyPublic

record signalServerStore =
  properties :: "string \<rightharpoonup> preKeyBundle"
  prototype :: "preKeyBundle option"

definition newSignalServerStore :: signalServerStore where
  "newSignalServerStore = \<lparr>properties = Map.empty, prototype = None\<rparr>"

definition objectPrototypeFunctions :: "string list" where
  "objectPrototypeFunctions =
     [''constructor'', ''hasOwnProperty'', ''isPrototypeOf'', ''propertyIsEnumerable'',
      ''toLocaleString'', ''toString'', ''valueOf'', ''__defineGetter__'',
      ''__defineSetter__'', ''__lookupGetter__'', ''__lookupSetter__'']"

definition objectPrototypeGet :: "string \<Rightarrow> jsvalue" where
  "objectPrototypeGet name =
     (if name \<in> set objectPrototypeFunctions then FunctionV name else Undefined)"

definition bundleGet :: "preKeyBundle \<Rightarrow> string \<Rightarrow> jsvalue" where
  "bundleGet b name =
     (if name = ''identityKey'' then ArrayBufferV (identityKey b)
      else if name = ''registrationId'' then
        (case registrationId b of None \<Rightarrow> Undefined | Some n \<Rightarrow> NumberV n)
      else if name = ''preKey'' then PreKeyV (preKey b)
      else if name = ''signedPreKey'' then SignedPreKeyV (signedPreKey b)
      else objectPrototypeGet name)"

text \<open>\<open>registerNewPreKeyBundle(userId, preKeyBundle)\<close>: \<open>this.store[userId] = preKeyBundle\<close>.\<close>

definition registerNewPreKeyBundle ::
  "signalServerStore \<Rightarrow> string \<Rightarrow> preKeyBundle \<Rightarrow> signalServerStore" where
  "registerNewPreKeyBundle srv userId preKeyBundle =
     (if userId = ''__proto__'' then srv\<lparr>prototype := Some preKeyBundle\<rparr>
      else srv\<lparr>properties := (properties srv)(userId \<mapsto> preKeyBundle)\<rparr>)"

text \<open>\<open>getPreKeyBundle(userId)\<close>: \<open>return this.store[userId]\<close>.\<close>

definition getPreKeyBundle :: "signalServerStore \<Rightarrow> string \<Rightarrow> jsvalue" where
  "getPreKeyBundle srv userId =
     (if userId = ''__proto__'' then
        (case prototype srv of None \<Rightarrow> ObjectPrototypeV | Some b \<Rightarrow> BundleV b)
      else
        (case properties srv userId of
           Some b \<Rightarrow> BundleV b
         | None \<Rightarrow>
             (case prototype srv of
                None \<Rightarrow> objectPrototypeGet userId
              | Some p \<Rightarrow> bundleGet p userId)))"

subsection \<open>The key store of a user\<close>

text \<open>
  \<open>libsignal.SignalProtocolAddress(name, deviceId)\<close>, as the demo constructs
  it: the key under which a store keeps the session with a remote user.
\<close>

datatype address = SignalProtocolAddress (getName: string) (getDeviceId: nat)

text \<open>
  Modelled from the spec: section 4.6, the handshake fields that a pre-key message
  embeds: the sender's identity key and registration id, the ids of the pre-keys used,
  and the sender's ephemeral public key. (The sender's ratchet public key is in the
  message itself.)
\<close>

record handshake =
  senderIdentityKey :: pubkey
  senderRegistrationId :: "nat option"
  usedPreKeyId :: nat
  usedSignedPreKeyId :: nat
  senderEphemeralKey :: pubkey

text \<open>
  Modelled from the spec: section 3, the session state, with the root key, the two chain
  keys, a message counter for each chain, the ratchet keys, and the message keys kept
  for messages that arrive late. \<open>pendingPreKey\<close> holds the handshake fields
  of a session that \<open>processPreKey\<close> has made and that has sent nothing yet.
\<close>

record sessionState =
  rootKey :: rootkey
  sendingChain :: "chainkey option"
  sendingCounter :: nat
  receivingChain :: "chainkey option"
  receivingCounter :: nat
  skippedKeys :: "(pubkey \<times> nat \<times> messagekey) list"
  localRatchet :: keypair
  remoteRatchet :: pubkey
  previousRemoteRatchet :: "pubkey option"
  pendingPreKey :: "handshake option"

text \<open>
  Modelled from the spec: section 4.1, \<open>SignalProtocolStore\<close>, the in-memory
  store that comes with libsignal and is not in the sources. The spec gives it
  \<open>put/get\<close>, \<open>getIdentityKeyPair\<close>,
  \<open>getLocalRegistrationId\<close>, \<open>loadSession\<close>,
  \<open>storeSession\<close> and \<open>removePreKey\<close>, and one store per key
  kind. The demo writes the identity key pair and the registration id with
  \<open>put\<close> under the names \<open>identityKey\<close> and
  \<open>registrationId\<close>, where the two getters find them.
\<close>

datatype keyMaterial = KeyPairV keypair | RegistrationIdV nat

record signalProtocolStore =
  items :: "string \<rightharpoonup> keyMaterial"
  preKeys :: "nat \<rightharpoonup> keypair"
  signedPreKeys :: "nat \<rightharpoonup> keypair"
  sessions :: "address \<rightharpoonup> sessionState"

definition newSignalProtocolStore :: signalProtocolStore where
  "newSignalProtocolStore =
     \<lparr>items = Map.empty, preKeys = Map.empty, signedPreKeys = Map.empty,
      sessions = Map.empty\<rparr>"

definition put :: "signalProtocolStore \<Rightarrow> string \<Rightarrow> keyMaterial \<Rightarrow> signalProtocolStore" where
  "put st k v = st\<lparr>items := (items st)(k \<mapsto> v)\<rparr>"

definition getIdentityKeyPair :: "signalProtocolStore \<Rightarrow> keypair option" where
  "getIdentityKeyPair st =
     (case items st ''identityKey'' of Some (KeyPairV kp) \<Rightarrow> Some kp | _ \<Rightarrow> None)"

definition getLocalRegistrationId :: "signalProtocolStore \<Rightarrow> nat option" where
  "getLocalRegistrationId st =
     (case items st ''registrationId'' of Some (RegistrationIdV n) \<Rightarrow> Some n | _ \<Rightarrow> None)"

definition storePreKey :: "signalProtocolStore \<Rightarrow> nat \<Rightarrow> keypair \<Rightarrow> signalProtocolStore" where
  "storePreKey st i kp = st\<lparr>preKeys := (preKeys st)(i \<mapsto> kp)\<rparr>"

definition loadPreKey :: "signalProtocolStore \<Rightarrow> nat \<Rightarrow> keypair option" where
  "loadPreKey st i = preKeys st i"

definition removePreKey :: "signalProtocolStore \<Rightarrow> nat \<Rightarrow> signalProtocolStore" where
  "removePreKey st i = st\<lparr>preKeys := (preKeys st)(i := None)\<rparr>"

definition storeSignedPreKey ::
  "signalProtocolStore \<Rightarrow> nat \<Rightarrow> keypair \<Rightarrow> signalProtocolStore" where
  "storeSignedPreKey st i kp = st\<lparr>signedPreKeys := (signedPreKeys st)(i \<mapsto> kp)\<rparr>"

definition loadSignedPreKey :: "signalProtocolStore \<Rightarrow> nat \<Rightarrow> keypair option" where
  "loadSignedPreKey st i = signedPreKeys st i"

definition loadSession :: "signalProtocolStore \<Rightarrow> address \<Rightarrow> sessionState option" where
  "loadSession st a = sessions st a"

definition storeSession ::
  "signalProtocolStore \<Rightarrow> address \<Rightarrow> sessionState \<Rightarrow> signalProtocolStore" where
  "storeSession st a s = st\<lparr>sessions := (sessions st)(a \<mapsto> s)\<rparr>"

subsection \<open>Errors\<close>

text \<open>
  Modelled from the spec: section 7, the errors of the library, with
  \<open>NotFound\<close> of the key store (4.1). Two more are needed:
  \<open>BadMessage\<close> for a message that does not authenticate or has the wrong
  shape, and \<open>TypeError\<close> for the error JavaScript throws when a field of
  \<open>undefined\<close> is read. An awaited call that fails ends the calling function
  with the same error.
\<close>

datatype error =
    InvalidSignature
  | UnknownPreKeyId
  | UnknownSignedPreKeyId
  | NoSession
  | DuplicateOrExpiredMessage
  | StoreFailure
  | NotFound
  | BadMessage
  | TypeError

subsection \<open>The library: key generation\<close>

text \<open>
  Modelled from the spec: sections 3 and 4.2, \<open>libsignal.KeyHelper\<close>, which
  is not in the sources. Each generator draws its key pair from the entropy, a counter
  that stands for the random source: the argument is its state, and the caller moves it
  on by one. A signed pre-key carries the signature of its public key under the
  identity's private key. \<open>generateSignedPreKey\<close> on an identity that is
  \<open>undefined\<close> throws.
\<close>

record preKeyResult =
  resultKeyId :: nat
  keyPair :: keypair

record signedPreKeyResult = preKeyResult +
  resultSignature :: signature

definition generateIdentityKeyPair :: "nat \<Rightarrow> keypair" where
  "generateIdentityKeyPair rng = createKeyPair rng"

definition generateRegistrationId :: "nat \<Rightarrow> nat" where
  "generateRegistrationId rng = rng"

definition generatePreKey :: "nat \<Rightarrow> nat \<Rightarrow> preKeyResult" where
  "generatePreKey i rng = \<lparr>resultKeyId = i, keyPair = createKeyPair rng\<rparr>"

definition generateSignedPreKey ::
  "keypair option \<Rightarrow> nat \<Rightarrow> nat \<Rightarrow> error + signedPreKeyResult" where
  "generateSignedPreKey identity i rng =
     (case identity of
        None \<Rightarrow> Inl TypeError
      | Some ik \<Rightarrow>
          Inr \<lparr>resultKeyId = i, keyPair = createKeyPair rng,
               resultSignature = Ed25519Sign (privKey ik) (pubKey (createKeyPair rng))\<rparr>)"

subsection \<open>The library: envelopes\<close>

text \<open>
  What \<open>SessionCipher.encrypt\<close> returns and
  \<open>decryptMessageAsync\<close> receives: an object with the fields
  \<open>type\<close> and \<open>body\<close>. The demo reads \<open>type\<close> as a
  number and compares it with 3, the tag of a pre-key message; the source names no other
  tag, and the library marks an ordinary message with 1. The body is the message of the
  ratchet (its ratchet public key, its counter and the encrypted plaintext), and in a
  pre-key message the handshake fields with it.
\<close>

record whisperMessage =
  ratchetKey :: pubkey
  counter :: nat
  sealed :: ciphertext

datatype messageBody =
    PreKeyWhisperMessage handshake whisperMessage
  | WhisperMessage whisperMessage

record envelope =
  type :: int
  body :: messageBody

definition PREKEY_MESSAGE :: int where
  "PREKEY_MESSAGE = 3"

definition ORDINARY_MESSAGE :: int where
  "ORDINARY_MESSAGE = 1"

subsection \<open>The library: sessions\<close>

text \<open>
  Modelled from the spec: section 4.3, \<open>SessionBuilder.processPreKey\<close>, the
  initiator's side of the key agreement. The signature of the signed pre-key is verified
  against the identity key of the bundle (\<open>InvalidSignature\<close> otherwise);
  the root key is derived from the four Diffie-Hellman outputs the spec lists, in its
  order; the session starts with that root as the root of its sending chain and with the
  remote's signed pre-key as the remote ratchet key, and it is stored before anything is
  sent. The session replaces the one the store held for the address. What the demo
  passes is whatever \<open>getPreKeyBundle\<close> returned: a value that is not a
  bundle has none of the fields read here, and the call fails.
\<close>

definition processPreKey ::
  "signalProtocolStore \<Rightarrow> address \<Rightarrow> jsvalue \<Rightarrow> nat \<Rightarrow> error + signalProtocolStore \<times> nat" where
  "processPreKey st addr device rng =
     (case device of
        BundleV b \<Rightarrow>
          (case getIdentityKeyPair st of
             None \<Rightarrow> Inl NotFound
           | Some identity \<Rightarrow>
               if \<not> Ed25519Verify (identityKey b) (publicKey (signedPreKey b))
                      (signature (signedPreKey b))
               then Inl InvalidSignature
               else
                 let ephemeral = createKeyPair rng;
                     ratchet = createKeyPair (rng + 1);
                     root = KDF [dh (privKey identity) (publicKey (signedPreKey b)),
                                 dh (privKey ephemeral) (identityKey b),
                                 dh (privKey ephemeral) (publicKey (signedPreKey b)),
                                 dh (privKey ephemeral) (publicKey (preKey b))];
                     session =
                       \<lparr>rootKey = root,
                        sendingChain = Some (ChainKey root),
                        sendingCounter = 0,
                        receivingChain = None,
                        receivingCounter = 0,
                        skippedKeys = [],
                        localRatchet = ratchet,
                        remoteRatchet = publicKey (signedPreKey b),
                        previousRemoteRatchet = None,
                        pendingPreKey =
                          Some \<lparr>senderIdentityKey = pubKey identity,
                                senderRegistrationId = getLocalRegistrationId st,
                                usedPreKeyId = keyId (preKey b),
                                usedSignedPreKeyId = keyId (signedPreKey b),
                                senderEphemeralKey = pubKey ephemeral\<rparr>\<rparr>
                 in Inr (storeSession st addr session, rng + 2))
      | _ \<Rightarrow> Inl TypeError)"

text \<open>
  Modelled from the spec: sections 4.4 to 4.6, \<open>SessionCipher.encrypt\<close>.
  Without a session it fails with \<open>NoSession\<close>. A session whose sending
  chain is still to be derived (it has received a new ratchet key since it last sent)
  derives it from the root key and the Diffie-Hellman output of its ratchet key and the
  remote's. The chain is advanced once, the plaintext is encrypted under the message
  key, and the counter goes up by one. The envelope is a \<open>PREKEY_MESSAGE\<close>
  with the handshake fields when this is the first message of a session made by
  \<open>processPreKey\<close>, an \<open>ORDINARY_MESSAGE\<close> otherwise.
\<close>

definition encrypt ::
  "signalProtocolStore \<Rightarrow> address \<Rightarrow> string \<Rightarrow> error + envelope \<times> signalProtocolStore" where
  "encrypt st addr plaintext =
     (case loadSession st addr of
        None \<Rightarrow> Inl NoSession
      | Some s \<Rightarrow>
          let root = (case sendingChain s of
                        Some ck \<Rightarrow> rootKey s
                      | None \<Rightarrow> KDFRatchet (rootKey s)
                                  (dh (privKey (localRatchet s)) (remoteRatchet s)));
              chain = (case sendingChain s of Some ck \<Rightarrow> ck | None \<Rightarrow> ChainKey root);
              msg = \<lparr>ratchetKey = pubKey (localRatchet s),
                     counter = sendingCounter s,
                     sealed = AEAD (snd (advanceChain chain)) plaintext\<rparr>;
              s' = s\<lparr>rootKey := root,
                     sendingChain := Some (fst (advanceChain chain)),
                     sendingCounter := sendingCounter s + 1,
                     pendingPreKey := None\<rparr>
          in Inr ((case pendingPreKey s of
                     Some h \<Rightarrow> \<lparr>type = PREKEY_MESSAGE, body = PreKeyWhisperMessage h msg\<rparr>
                   | None \<Rightarrow> \<lparr>type = ORDINARY_MESSAGE, body = WhisperMessage msg\<rparr>),
                  storeSession st addr s'))"

text \<open>
  Modelled from the spec: section 4.5, the step of the Diffie-Hellman ratchet that a new
  remote ratchet key triggers. The output of the local ratchet private key and the new
  remote key is mixed into the root key, which gives the new receiving chain; a fresh
  local ratchet key pair is generated, and the sending chain is left to be derived at
  the next send.
\<close>

definition dhRatchet :: "sessionState \<Rightarrow> pubkey \<Rightarrow> nat \<Rightarrow> sessionState" where
  "dhRatchet s remote rng =
     (let root = KDFRatchet (rootKey s) (dh (privKey (localRatchet s)) remote)
      in s\<lparr>rootKey := root,
           receivingChain := Some (ChainKey root),
           receivingCounter := 0,
           previousRemoteRatchet := Some (remoteRatchet s),
           remoteRatchet := remote,
           localRatchet := createKeyPair rng,
           sendingChain := None,
           sendingCounter := 0\<rparr>)"

text \<open>
  Modelled from the spec: section 4.7, the window for messages that arrive out of order.
  The message keys of the counters a message jumps over are kept, at most
  \<open>maxSkipped\<close> of them; a message whose counter is below the chain's and
  whose key is not kept, or one that would take the window over its bound, fails with
  \<open>DuplicateOrExpiredMessage\<close>.
\<close>

definition maxSkipped :: nat where
  "maxSkipped = 2000"

fun skipKeys ::
  "pubkey \<Rightarrow> nat \<Rightarrow> nat \<Rightarrow> chainkey \<Rightarrow> chainkey \<times> (pubkey \<times> nat \<times> messagekey) list" where
  "skipKeys rk i 0 ck = (ck, [])"
| "skipKeys rk i (Suc n) ck =
     (let rest = skipKeys rk (Suc i) n (fst (advanceChain ck))
      in (fst rest, (rk, i, snd (advanceChain ck)) # snd rest))"

fun lookupSkipped :: "(pubkey \<times> nat \<times> messagekey) list \<Rightarrow> pubkey \<Rightarrow> nat \<Rightarrow> messagekey option" where
  "lookupSkipped [] rk n = None"
| "lookupSkipped ((rk', n', mk) # rest) rk n =
     (if rk' = rk \<and> n' = n then Some mk else lookupSkipped rest rk n)"

definition removeSkipped ::
  "(pubkey \<times> nat \<times> messagekey) list \<Rightarrow> pubkey \<Rightarrow> nat \<Rightarrow> (pubkey \<times> nat \<times> messagekey) list" where
  "removeSkipped ks rk n = filter (\<lambda>(rk', n', mk). \<not> (rk' = rk \<and> n' = n)) ks"

text \<open>
  Modelled from the spec: section 4.7, the decryption of one ratchet message on a
  session. A kept key is used and dropped. Otherwise a ratchet key other than the
  recorded one runs the ratchet step, the receiving chain is advanced to the counter of
  the message, and the plaintext is opened with the message key. A message that does not
  authenticate is \<open>BadMessage\<close>. The session is returned only on success.
\<close>

definition receiveMessage ::
  "sessionState \<Rightarrow> whisperMessage \<Rightarrow> nat \<Rightarrow> error + string \<times> sessionState \<times> nat" where
  "receiveMessage s m rng =
     (case lookupSkipped (skippedKeys s) (ratchetKey m) (counter m) of
        Some mk \<Rightarrow>
          (case aeadOpen mk (sealed m) of
             None \<Rightarrow> Inl BadMessage
           | Some plaintext \<Rightarrow>
               Inr (plaintext,
                    s\<lparr>skippedKeys := removeSkipped (skippedKeys s) (ratchetKey m) (counter m)\<rparr>,
                    rng))
      | None \<Rightarrow>
          let stepped = (ratchetKey m \<noteq> remoteRatchet s);
              s1 = (if stepped then dhRatchet s (ratchetKey m) rng else s);
              rng1 = (if stepped then rng + 1 else rng)
          in (case receivingChain s1 of
                None \<Rightarrow> Inl BadMessage
              | Some ck \<Rightarrow>
                  if counter m < receivingCounter s1 then Inl DuplicateOrExpiredMessage
                  else if maxSkipped
                          < length (skippedKeys s1) + (counter m - receivingCounter s1)
                  then Inl DuplicateOrExpiredMessage
                  else
                    let skipped = skipKeys (ratchetKey m) (receivingCounter s1)
                                    (counter m - receivingCounter s1) ck
                    in (case aeadOpen (snd (advanceChain (fst skipped))) (sealed m) of
                          None \<Rightarrow> Inl BadMessage
                        | Some plaintext \<Rightarrow>
                            Inr (plaintext,
                                 s1\<lparr>receivingChain := Some (fst (advanceChain (fst skipped))),
                                    receivingCounter := counter m + 1,
                                    skippedKeys := skippedKeys s1 @ snd skipped\<rparr>,
                                 rng1))))"

text \<open>
  Modelled from the spec: section 4.7,
  \<open>SessionCipher.decryptPreKeyWhisperMessage\<close>, the responder's side of the
  key agreement. The signed pre-key and the one-time pre-key are looked up under the ids
  of the handshake (\<open>UnknownSignedPreKeyId\<close>,
  \<open>UnknownPreKeyId\<close>); the root key is derived from the same four
  Diffie-Hellman outputs as the initiator's, each computed from the other side; the
  session starts with that root as the root of its receiving chain and the sender's
  ratchet key as the remote one; the ordinary message inside is decrypted on it; the
  one-time pre-key is deleted and the session stored. The store changes only when every
  step has succeeded (5: all or nothing). The spec states the operation for a receiver
  that holds no session; a pre-key message carries all the receiver needs, so the model
  does the same when a session exists, and the new session takes its place.
\<close>

definition decryptPreKeyWhisperMessage ::
  "signalProtocolStore \<Rightarrow> address \<Rightarrow> messageBody \<Rightarrow> nat
     \<Rightarrow> error + string \<times> signalProtocolStore \<times> nat" where
  "decryptPreKeyWhisperMessage st addr b rng =
     (case b of
        WhisperMessage m \<Rightarrow> Inl BadMessage
      | PreKeyWhisperMessage h m \<Rightarrow>
          (case getIdentityKeyPair st of
             None \<Rightarrow> Inl NotFound
           | Some identity \<Rightarrow>
               (case loadSignedPreKey st (usedSignedPreKeyId h) of
                  None \<Rightarrow> Inl UnknownSignedPreKeyId
                | Some spk \<Rightarrow>
                    (case loadPreKey st (usedPreKeyId h) of
                       None \<Rightarrow> Inl UnknownPreKeyId
                     | Some opk \<Rightarrow>
                         let root = KDF [dh (privKey spk) (senderIdentityKey h),
                                         dh (privKey identity) (senderEphemeralKey h),
                                         dh (privKey spk) (senderEphemeralKey h),
                                         dh (privKey opk) (senderEphemeralKey h)];
                             session =
                               \<lparr>rootKey = root,
                                sendingChain = None,
                                sendingCounter = 0,
                                receivingChain = Some (ChainKey root),
                                receivingCounter = 0,
                                skippedKeys = [],
                                localRatchet = createKeyPair rng,
                                remoteRatchet = ratchetKey m,
                                previousRemoteRatchet = None,
                                pendingPreKey = None\<rparr>
                         in (case receiveMessage session m (rng + 1) of
                               Inl e \<Rightarrow> Inl e
                             | Inr (plaintext, session', rng') \<Rightarrow>
                                 Inr (plaintext,
                                      storeSession (removePreKey st (usedPreKeyId h)) addr
                                        session',
                                      rng'))))))"

text \<open>
  Modelled from the spec: section 4.7,
  \<open>SessionCipher.decryptWhisperMessage\<close>. It locates the session, fails with
  \<open>NoSession\<close> when there is none, and decrypts the message on it.
\<close>

definition decryptWhisperMessage ::
  "signalProtocolStore \<Rightarrow> address \<Rightarrow> messageBody \<Rightarrow> nat
     \<Rightarrow> error + string \<times> signalProtocolStore \<times> nat" where
  "decryptWhisperMessage st addr b rng =
     (case loadSession st addr of
        None \<Rightarrow> Inl NoSession
      | Some s \<Rightarrow>
          (case b of
             PreKeyWhisperMessage h m \<Rightarrow> Inl BadMessage
           | WhisperMessage m \<Rightarrow>
               (case receiveMessage s m rng of
                  Inl e \<Rightarrow> Inl e
                | Inr (plaintext, s', rng') \<Rightarrow>
                    Inr (plaintext, storeSession st addr s', rng'))))"

subsection \<open>The helpers of the demo\<close>

text \<open>
  \<open>util.toArrayBuffer\<close> and \<open>util.toString\<close> come from
  helpers.js, which is not in the sources and of which the spec says nothing. A string
  and the buffer of its bytes are the same \<open>string\<close> here, so the two
  conversions are written as inverse to each other. \<open>decryptMessageAsync\<close>
  also hands \<open>util.toString\<close> a Promise (see below). What the helper makes
  of one is left open: it is the parameter \<open>onPromise\<close>, a thrown error or a
  string. It cannot depend on what the Promise settles to later, which synchronous code
  cannot read.
\<close>

datatype thing = ArrayBuffer string | Promise

definition util_toArrayBuffer :: "string \<Rightarrow> string" where
  "util_toArrayBuffer message = message"

definition util_toString :: "error + string \<Rightarrow> thing \<Rightarrow> error + string" where
  "util_toString onPromise t = (case t of ArrayBuffer bytes \<Rightarrow> Inr bytes | Promise \<Rightarrow> onPromise)"

subsection \<open>SignalProtocolManager\<close>

text \<open>
  A manager has its user id and its own \<open>SignalProtocolStore\<close>. Its third
  field, \<open>signalServerStore\<close>, is a reference to the server object that all
  managers of a run share; that object is kept in the \<open>world\<close>, with the
  entropy behind the key generators and the list of the calls made to the server and to
  the sessions of the library, in the order they were made.
\<close>

datatype call =
    RegisterNewPreKeyBundle string
  | GetPreKeyBundle string
  | ProcessPreKey address
  | Encrypt address
  | DecryptPreKeyWhisperMessage address
  | DecryptWhisperMessage address

record world =
  server :: signalServerStore
  entropy :: nat
  calls :: "call list"

record signalProtocolManager =
  userId :: string
  store :: signalProtocolStore

definition newSignalProtocolManager :: "string \<Rightarrow> signalProtocolManager" where
  "newSignalProtocolManager uid = \<lparr>userId = uid, store = newSignalProtocolStore\<rparr>"

text \<open>
  \<open>_generateIdentityAsync()\<close>, lines 98-106. (The two private methods lose the
  underscore in front of their names, which a name here cannot start with.)
\<close>

definition generateIdentityAsync ::
  "signalProtocolManager \<Rightarrow> world \<Rightarrow> signalProtocolManager \<times> world" where
  "generateIdentityAsync m w =
     (let results0 = generateIdentityKeyPair (entropy w);
          results1 = generateRegistrationId (entropy w + 1)
      in (m\<lparr>store := put (put (store m) ''identityKey'' (KeyPairV results0))
                        ''registrationId'' (RegistrationIdV results1)\<rparr>,
          w\<lparr>entropy := entropy w + 2\<rparr>))"

text \<open>
  \<open>_generatePreKeyBundleAsync(preKeyId, signedPreKeyId)\<close>, lines 115-148.
  The two keys are generated, stored under their ids, and the bundle is built from the
  public halves. \<open>identity.pubKey\<close> on an identity that is
  \<open>undefined\<close> is a \<open>TypeError\<close>.
\<close>

definition generatePreKeyBundleAsync ::
  "signalProtocolManager \<Rightarrow> nat \<Rightarrow> nat \<Rightarrow> world
     \<Rightarrow> (error + preKeyBundle) \<times> signalProtocolManager \<times> world" where
  "generatePreKeyBundleAsync m preKeyId signedPreKeyId w =
     (let result0 = getIdentityKeyPair (store m);
          result1 = getLocalRegistrationId (store m);
          keys0 = generatePreKey preKeyId (entropy w);
          w' = w\<lparr>entropy := entropy w + 2\<rparr>
      in (case generateSignedPreKey result0 signedPreKeyId (entropy w + 1) of
            Inl e \<Rightarrow> (Inl e, m, w')
          | Inr keys1 \<Rightarrow>
              let m' = m\<lparr>store := storeSignedPreKey
                                    (storePreKey (store m) preKeyId (keyPair keys0))
                                    signedPreKeyId (keyPair keys1)\<rparr>
              in (case result0 of
                    None \<Rightarrow> (Inl TypeError, m', w')
                  | Some identity \<Rightarrow>
                      (Inr \<lparr>identityKey = pubKey identity,
                            registrationId = result1,
                            preKey = \<lparr>keyId = preKeyId,
                                      publicKey = pubKey (keyPair keys0)\<rparr>,
                            signedPreKey = \<lparr>keyId = signedPreKeyId,
                                            publicKey = pubKey (keyPair keys1),
                                            signature = resultSignature keys1\<rparr>\<rparr>,
                       m', w'))))"

text \<open>\<open>initializeAsync()\<close>, lines 46-52.\<close>

definition initializeAsync ::
  "signalProtocolManager \<Rightarrow> world \<Rightarrow> (error + unit) \<times> signalProtocolManager \<times> world" where
  "initializeAsync m w =
     (case generateIdentityAsync m w of
        (m1, w1) \<Rightarrow>
          (case generatePreKeyBundleAsync m1 123 456 w1 of
             (Inl e, m2, w2) \<Rightarrow> (Inl e, m2, w2)
           | (Inr preKeyBundle, m2, w2) \<Rightarrow>
               (Inr (), m2,
                w2\<lparr>server := registerNewPreKeyBundle (server w2) (userId m2) preKeyBundle,
                   calls := calls w2 @ [RegisterNewPreKeyBundle (userId m2)]\<rparr>)))"

text \<open>
  \<open>encryptMessageAsync(remoteUserId, message)\<close>, lines 60-71. The bundle of
  the remote user is fetched and handed to \<open>processPreKey\<close> first, on every
  call; an error of an awaited call ends the function with that error.
\<close>

definition encryptMessageAsync ::
  "signalProtocolManager \<Rightarrow> string \<Rightarrow> string \<Rightarrow> world
     \<Rightarrow> (error + envelope) \<times> signalProtocolManager \<times> world" where
  "encryptMessageAsync m remoteUserId message w =
     (let address = SignalProtocolAddress remoteUserId 123;
          remoteUserPreKey = getPreKeyBundle (server w) remoteUserId;
          w1 = w\<lparr>calls := calls w @ [GetPreKeyBundle remoteUserId, ProcessPreKey address]\<rparr>
      in (case processPreKey (store m) address remoteUserPreKey (entropy w) of
            Inl e \<Rightarrow> (Inl e, m, w1)
          | Inr (st1, rng1) \<Rightarrow>
              let w2 = w1\<lparr>entropy := rng1, calls := calls w1 @ [Encrypt address]\<rparr>
              in (case encrypt st1 address (util_toArrayBuffer message) of
                    Inl e \<Rightarrow> (Inl e, m\<lparr>store := st1\<rparr>, w2)
                  | Inr (cipherText, st2) \<Rightarrow> (Inr cipherText, m\<lparr>store := st2\<rparr>, w2))))"

text \<open>
  \<open>decryptMessageAsync(remoteUserId, cipherText)\<close>, lines 80-93. In the
  first branch the result of \<open>decryptPreKeyWhisperMessage\<close> is awaited: its
  error is the error of the function, its buffer goes to \<open>util.toString\<close>.
  In the second branch \<open>decryptWhisperMessage\<close> is called without
  \<open>await\<close>: \<open>decryptedMessage\<close> is the Promise itself, and that
  is what goes to \<open>util.toString\<close>. The call still runs, so whatever it
  stores is stored; what it settles to, plaintext or error, is read by nobody.
\<close>

definition decryptMessageAsync ::
  "error + string \<Rightarrow> signalProtocolManager \<Rightarrow> string \<Rightarrow> envelope \<Rightarrow> world
     \<Rightarrow> (error + string) \<times> signalProtocolManager \<times> world" where
  "decryptMessageAsync onPromise m remoteUserId cipherText w =
     (let address = SignalProtocolAddress remoteUserId 123;
          messageHasEmbeddedPreKeyBundle = (type cipherText = 3)
      in if messageHasEmbeddedPreKeyBundle then
           (let w1 = w\<lparr>calls := calls w @ [DecryptPreKeyWhisperMessage address]\<rparr>
            in (case decryptPreKeyWhisperMessage (store m) address (body cipherText)
                       (entropy w) of
                  Inl e \<Rightarrow> (Inl e, m, w1)
                | Inr (decryptedMessage, st1, rng1) \<Rightarrow>
                    (util_toString onPromise (ArrayBuffer decryptedMessage),
                     m\<lparr>store := st1\<rparr>, w1\<lparr>entropy := rng1\<rparr>)))
         else
           (let w1 = w\<lparr>calls := calls w @ [DecryptWhisperMessage address]\<rparr>
            in (case decryptWhisperMessage (store m) address (body cipherText) (entropy w) of
                  Inl e \<Rightarrow> (util_toString onPromise Promise, m, w1)
                | Inr (decryptedMessage, st1, rng1) \<Rightarrow>
                    (util_toString onPromise Promise,
                     m\<lparr>store := st1\<rparr>, w1\<lparr>entropy := rng1\<rparr>))))"

subsection \<open>runDemo\<close>

text \<open>
  \<open>runDemo()\<close>, lines 154-184, without its alerts. The two
  \<open>initializeAsync\<close> calls that \<open>Promise.all\<close> runs together are
  taken one after the other: they work on different stores and register different user
  ids. An error of an awaited call ends the run. The result holds the four values the
  alerts show, and the run returns the two managers and the world as it left them.
\<close>

record demoResult =
  encryptedMessage :: envelope
  decryptedMessage :: string
  encryptedMessage2 :: envelope
  decryptedMessage2 :: string

definition user1 :: string where
  "user1 = ''user1@domain.cc''"

definition user2 :: string where
  "user2 = ''user2@domain.cc''"

definition runDemo ::
  "error + string \<Rightarrow> nat
     \<Rightarrow> (error + demoResult) \<times> signalProtocolManager \<times> signalProtocolManager \<times> world" where
  "runDemo onPromise seed =
     (let dummySignalServer = newSignalServerStore;
          w0 = \<lparr>server = dummySignalServer, entropy = seed, calls = []\<rparr>;
          signalProtocolManagerUser1 = newSignalProtocolManager user1;
          signalProtocolManagerUser2 = newSignalProtocolManager user2
      in (case initializeAsync signalProtocolManagerUser1 w0 of
            (Inl e, m1, w1) \<Rightarrow> (Inl e, m1, signalProtocolManagerUser2, w1)
          | (Inr u1, m1, w1) \<Rightarrow>
      (case initializeAsync signalProtocolManagerUser2 w1 of
            (Inl e, m2, w2) \<Rightarrow> (Inl e, m1, m2, w2)
          | (Inr u2, m2, w2) \<Rightarrow>
      (case encryptMessageAsync m1 user2 ''Hello User 2 !'' w2 of
            (Inl e, m1a, w3) \<Rightarrow> (Inl e, m1a, m2, w3)
          | (Inr encrypted, m1a, w3) \<Rightarrow>
      (case decryptMessageAsync onPromise m2 user1 encrypted w3 of
            (Inl e, m2a, w4) \<Rightarrow> (Inl e, m1a, m2a, w4)
          | (Inr decrypted, m2a, w4) \<Rightarrow>
      (case encryptMessageAsync m2a user1 ''What is up user 1?'' w4 of
            (Inl e, m2b, w5) \<Rightarrow> (Inl e, m1a, m2b, w5)
          | (Inr encrypted2, m2b, w5) \<Rightarrow>
      (case decryptMessageAsync onPromise m1a user2 encrypted2 w5 of
            (Inl e, m1b, w6) \<Rightarrow> (Inl e, m1b, m2b, w6)
          | (Inr decrypted2, m1b, w6) \<Rightarrow>
              (Inr \<lparr>encryptedMessage = encrypted, decryptedMessage = decrypted,
                    encryptedMessage2 = encrypted2, decryptedMessage2 = decrypted2\<rparr>,
               m1b, m2b, w6))))))))"

text \<open>
  \<open>runDemo\<close> in two steps, so that the state between them can be spoken of. The first
  is \<open>runDemo\<close> up to line 175: the two initialisations, the first user's
  \<open>encryptMessageAsync\<close> and the second user's \<open>decryptMessageAsync\<close>. It returns the
  envelope, the decrypted string, and the two managers and the world as they are then.
\<close>

definition runDemoFirstExchange ::
  "error + string \<Rightarrow> nat
     \<Rightarrow> (error + envelope \<times> string) \<times> signalProtocolManager \<times> signalProtocolManager
         \<times> world" where
  "runDemoFirstExchange onPromise seed =
     (let dummySignalServer = newSignalServerStore;
          w0 = \<lparr>server = dummySignalServer, entropy = seed, calls = []\<rparr>;
          signalProtocolManagerUser1 = newSignalProtocolManager user1;
          signalProtocolManagerUser2 = newSignalProtocolManager user2
      in (case initializeAsync signalProtocolManagerUser1 w0 of
            (Inl e, m1, w1) \<Rightarrow> (Inl e, m1, signalProtocolManagerUser2, w1)
          | (Inr u1, m1, w1) \<Rightarrow>
      (case initializeAsync signalProtocolManagerUser2 w1 of
            (Inl e, m2, w2) \<Rightarrow> (Inl e, m1, m2, w2)
          | (Inr u2, m2, w2) \<Rightarrow>
      (case encryptMessageAsync m1 user2 ''Hello User 2 !'' w2 of
            (Inl e, m1a, w3) \<Rightarrow> (Inl e, m1a, m2, w3)
          | (Inr encrypted, m1a, w3) \<Rightarrow>
      (case decryptMessageAsync onPromise m2 user1 encrypted w3 of
            (Inl e, m2a, w4) \<Rightarrow> (Inl e, m1a, m2a, w4)
          | (Inr decrypted, m2a, w4) \<Rightarrow> (Inr (encrypted, decrypted), m1a, m2a, w4))))))"

text \<open>
  The second step is the rest of \<open>runDemo\<close>, lines 178-183, run from the outcome of
  the first: the second user's \<open>encryptMessageAsync\<close> of the reply and the first user's
  \<open>decryptMessageAsync\<close>.
\<close>

definition runDemoReply ::
  "error + string
     \<Rightarrow> (error + envelope \<times> string) \<times> signalProtocolManager \<times> signalProtocolManager
         \<times> world
     \<Rightarrow> (error + demoResult) \<times> signalProtocolManager \<times> signalProtocolManager \<times> world" where
  "runDemoReply onPromise first =
     (case first of
        (Inl e, m1a, m2a, w4) \<Rightarrow> (Inl e, m1a, m2a, w4)
      | (Inr (encrypted, decrypted), m1a, m2a, w4) \<Rightarrow>
      (case encryptMessageAsync m2a user1 ''What is up user 1?'' w4 of
            (Inl e, m2b, w5) \<Rightarrow> (Inl e, m1a, m2b, w5)
          | (Inr encrypted2, m2b, w5) \<Rightarrow>
      (case decryptMessageAsync onPromise m1a user2 encrypted2 w5 of
            (Inl e, m1b, w6) \<Rightarrow> (Inl e, m1b, m2b, w6)
          | (Inr decrypted2, m1b, w6) \<Rightarrow>
              (Inr \<lparr>encryptedMessage = encrypted, decryptedMessage = decrypted,
                    encryptedMessage2 = encrypted2, decryptedMessage2 = decrypted2\<rparr>,
               m1b, m2b, w6))))"

subsection \<open>Notions used by the properties\<close>

text \<open>
  A run of registrations on the server, in order, and the names a store object can
  inherit: those of \<open>Object.prototype\<close>, and those of a bundle that has
  become its prototype.
\<close>

fun registerAll :: "signalServerStore \<Rightarrow> (string \<times> preKeyBundle) list \<Rightarrow> signalServerStore" where
  "registerAll srv [] = srv"
| "registerAll srv ((u, b) # rest) = registerAll (registerNewPreKeyBundle srv u b) rest"

definition inheritedNames :: "string list" where
  "inheritedNames =
     ''__proto__'' # objectPrototypeFunctions
       @ [''identityKey'', ''registrationId'', ''preKey'', ''signedPreKey'']"

text \<open>
  The address a call was made with, and the calls that a step added to the list of the
  world.
\<close>

fun callAddress :: "call \<Rightarrow> address option" where
  "callAddress (RegisterNewPreKeyBundle u) = None"
| "callAddress (GetPreKeyBundle u) = None"
| "callAddress (ProcessPreKey a) = Some a"
| "callAddress (Encrypt a) = Some a"
| "callAddress (DecryptPreKeyWhisperMessage a) = Some a"
| "callAddress (DecryptWhisperMessage a) = Some a"

definition newCalls :: "world \<Rightarrow> world \<Rightarrow> call list" where
  "newCalls w w' = drop (length (calls w)) (calls w')"

text \<open>
  A key pair is well formed when its two halves belong together, as those of a generated
  pair do. A manager has an identity when its store holds a well-formed identity key
  pair. It holds its published pre-keys when, besides, its store holds well-formed key
  pairs under the ids 123 and 456 and the server has, under the manager's user id, the
  bundle made of their public halves, signed by the identity: the state
  \<open>initializeAsync\<close> leaves, for as long as nobody has used up the one-time
  pre-key and nobody has registered another bundle under the id.
\<close>

fun matching :: "pubkey \<Rightarrow> privkey \<Rightarrow> bool" where
  "matching (Pub i) (Priv j) = (i = j)"

definition wellFormed :: "keypair \<Rightarrow> bool" where
  "wellFormed kp = matching (pubKey kp) (privKey kp)"

definition hasIdentity :: "signalProtocolManager \<Rightarrow> bool" where
  "hasIdentity m =
     (case getIdentityKeyPair (store m) of None \<Rightarrow> False | Some ik \<Rightarrow> wellFormed ik)"

definition holdsPublishedPreKeys :: "signalProtocolManager \<Rightarrow> world \<Rightarrow> bool" where
  "holdsPublishedPreKeys m w =
     (case getIdentityKeyPair (store m) of
        None \<Rightarrow> False
      | Some ik \<Rightarrow>
          (case loadPreKey (store m) 123 of
             None \<Rightarrow> False
           | Some pk \<Rightarrow>
               (case loadSignedPreKey (store m) 456 of
                  None \<Rightarrow> False
                | Some spk \<Rightarrow>
                    wellFormed ik \<and> wellFormed pk \<and> wellFormed spk \<and>
                    getPreKeyBundle (server w) (userId m) =
                      BundleV \<lparr>identityKey = pubKey ik,
                               registrationId = getLocalRegistrationId (store m),
                               preKey = \<lparr>keyId = 123, publicKey = pubKey pk\<rparr>,
                               signedPreKey =
                                 \<lparr>keyId = 456, publicKey = pubKey spk,
                                  signature = Ed25519Sign (privKey ik) (pubKey spk)\<rparr>\<rparr>)))"

text \<open>
  The state of \<open>runDemo\<close> after its two \<open>initializeAsync\<close>
  calls, for a given entropy, and the concrete instance used to evaluate the properties:
  the two managers and the world for the entropy 0, the bundle of the second user, and
  the envelope that the first user's \<open>encryptMessageAsync(user2, "Hello User 2
  !")\<close> produces there.
\<close>

definition twoUsers :: "nat \<Rightarrow> signalProtocolManager \<times> signalProtocolManager \<times> world" where
  "twoUsers seed =
     (case initializeAsync (newSignalProtocolManager user1)
             \<lparr>server = newSignalServerStore, entropy = seed, calls = []\<rparr> of
        (r1, m1, w1) \<Rightarrow>
          (case initializeAsync (newSignalProtocolManager user2) w1 of
             (r2, m2, w2) \<Rightarrow> (m1, m2, w2)))"

definition demoManager1 :: signalProtocolManager where
  "demoManager1 = fst (twoUsers 0)"

definition demoManager2 :: signalProtocolManager where
  "demoManager2 = fst (snd (twoUsers 0))"

definition demoWorld :: world where
  "demoWorld = snd (snd (twoUsers 0))"

definition demoBundle2 :: preKeyBundle where
  "demoBundle2 =
     \<lparr>identityKey = Pub 4, registrationId = Some 5,
      preKey = \<lparr>keyId = 123, publicKey = Pub 6\<rparr>,
      signedPreKey = \<lparr>keyId = 456, publicKey = Pub 7,
                      signature = Ed25519Sign (Priv 4) (Pub 7)\<rparr>\<rparr>"

definition demoEnvelope :: envelope where
  "demoEnvelope =
     \<lparr>type = 3,
      body = PreKeyWhisperMessage
               \<lparr>senderIdentityKey = Pub 0, senderRegistrationId = Some 1,
                usedPreKeyId = 123, usedSignedPreKeyId = 456,
                senderEphemeralKey = Pub 8\<rparr>
               \<lparr>ratchetKey = Pub 9, counter = 0,
                sealed = AEAD (HMAC_msg (ChainKey (KDF [DH 0 7, DH 4 8, DH 7 8, DH 6 8])))
                           ''Hello User 2 !''\<rparr>\<rparr>"

text \<open>
  The two stores and the entropy after the first exchange of the demo: the first user has
  encrypted \<open>Hello User 2 !\<close> and the second has decrypted it.
\<close>

definition afterFirstExchange :: "signalProtocolStore \<times> signalProtocolStore \<times> nat" where
  "afterFirstExchange =
     (case encryptMessageAsync demoManager1 user2 ''Hello User 2 !'' demoWorld of
        (r1, m1, w1) \<Rightarrow>
          (case decryptMessageAsync (Inl TypeError) demoManager2 user1 demoEnvelope w1 of
             (r2, m2, w2) \<Rightarrow> (store m1, store m2, entropy w2)))"

section \<open>Properties\<close>

lemmas model_defs =
  twoUsers_def initializeAsync_def generateIdentityAsync_def generatePreKeyBundleAsync_def
  newSignalProtocolManager_def newSignalProtocolStore_def newSignalServerStore_def
  generateIdentityKeyPair_def generateRegistrationId_def generatePreKey_def
  generateSignedPreKey_def createKeyPair_def put_def getIdentityKeyPair_def
  getLocalRegistrationId_def storePreKey_def loadPreKey_def removePreKey_def
  storeSignedPreKey_def loadSignedPreKey_def loadSession_def storeSession_def
  registerNewPreKeyBundle_def getPreKeyBundle_def objectPrototypeGet_def
  objectPrototypeFunctions_def bundleGet_def user1_def user2_def
  encryptMessageAsync_def decryptMessageAsync_def processPreKey_def encrypt_def
  decryptPreKeyWhisperMessage_def decryptWhisperMessage_def receiveMessage_def
  dhRatchet_def advanceChain_def maxSkipped_def removeSkipped_def util_toArrayBuffer_def
  util_toString_def PREKEY_MESSAGE_def ORDINARY_MESSAGE_def newCalls_def Let_def

lemmas demo_defs =
  demoManager1_def demoManager2_def demoWorld_def demoBundle2_def demoEnvelope_def

lemma demo_state:
  "getPreKeyBundle (server demoWorld) user2 = BundleV demoBundle2"
  "fst (encryptMessageAsync demoManager1 user2 ''Hello User 2 !'' demoWorld) = Inr demoEnvelope"
  "userId demoManager1 = user1"
  "userId demoManager2 = user2"
  by (simp_all add: demo_defs model_defs)

subsection \<open>The modelled library on its own\<close>

text \<open>
  Used without the demo in between, the modelled sessions behave as the spec describes.
  After the first exchange the second user's reply, encrypted on the session it holds,
  is an \<open>ORDINARY_MESSAGE\<close>, and the first user's
  \<open>decryptWhisperMessage\<close> opens it.
\<close>

lemma library_ordinary_reply:
  "(case afterFirstExchange of
      (st1, st2, rng) \<Rightarrow>
        (case encrypt st2 (SignalProtocolAddress user1 123) ''What is up user 1?'' of
           Inr (env, st2') \<Rightarrow>
             type env = ORDINARY_MESSAGE
             \<and> (case decryptWhisperMessage st1 (SignalProtocolAddress user2 123) (body env)
                          rng of
                   Inr (plaintext, st1', rng') \<Rightarrow> plaintext = ''What is up user 1?''
                 | Inl e \<Rightarrow> False)
         | Inl e \<Rightarrow> False))"
  by code_simp

text \<open>
  Three further messages of the first user, delivered as third, first, second, all
  decrypt; the second delivered once more is refused.
\<close>

lemma library_out_of_order:
  "(case afterFirstExchange of
      (st1, st2, rng) \<Rightarrow>
        (case encrypt st1 (SignalProtocolAddress user2 123) ''five'' of
           Inr (env5, st1a) \<Rightarrow>
        (case encrypt st1a (SignalProtocolAddress user2 123) ''six'' of
           Inr (env6, st1b) \<Rightarrow>
        (case encrypt st1b (SignalProtocolAddress user2 123) ''seven'' of
           Inr (env7, st1c) \<Rightarrow>
             type env5 = ORDINARY_MESSAGE \<and> type env7 = ORDINARY_MESSAGE \<and>
        (case decryptWhisperMessage st2 (SignalProtocolAddress user1 123) (body env7) rng of
           Inr (p7, st2a, rng1) \<Rightarrow>
        (case decryptWhisperMessage st2a (SignalProtocolAddress user1 123) (body env5) rng1 of
           Inr (p5, st2b, rng2) \<Rightarrow>
        (case decryptWhisperMessage st2b (SignalProtocolAddress user1 123) (body env6) rng2 of
           Inr (p6, st2c, rng3) \<Rightarrow>
             p7 = ''seven'' \<and> p5 = ''five'' \<and> p6 = ''six''
             \<and> (case decryptWhisperMessage st2c (SignalProtocolAddress user1 123)
                          (body env6) rng3 of
                   Inl e \<Rightarrow> e = DuplicateOrExpiredMessage
                 | Inr x \<Rightarrow> False)
         | Inl e \<Rightarrow> False)
         | Inl e \<Rightarrow> False)
         | Inl e \<Rightarrow> False)
         | Inl e \<Rightarrow> False)
         | Inl e \<Rightarrow> False)
         | Inl e \<Rightarrow> False))"
  by code_simp

subsection \<open>The server store\<close>

lemma get_after_register:
  "getPreKeyBundle (registerNewPreKeyBundle srv u b) u = BundleV b"
  by (simp add: getPreKeyBundle_def registerNewPreKeyBundle_def)

lemma properties_registerAll:
  "u \<notin> fst ` set regs \<Longrightarrow> properties (registerAll srv regs) u = properties srv u"
  by (induction srv regs rule: registerAll.induct)
     (auto simp: registerNewPreKeyBundle_def)

lemma get_not_inherited:
  "u \<notin> set inheritedNames \<Longrightarrow> properties srv u = None \<Longrightarrow> getPreKeyBundle srv u = Undefined"
  by (auto simp: getPreKeyBundle_def inheritedNames_def bundleGet_def objectPrototypeGet_def
           split: option.splits)

text \<open>
  C10, as amended. For every user id \<open>u\<close> and bundle \<open>b\<close>,
  \<open>getPreKeyBundle(u)\<close> after \<open>registerNewPreKeyBundle(u, b)\<close>
  returns exactly \<open>b\<close>, and a later registration for the same
  \<open>u\<close> overwrites the earlier one. On a store that started empty,
  \<open>getPreKeyBundle\<close> for a user id that was never registered returns
  \<open>undefined\<close>, without an error, when the id is not a name the store object
  inherits (\<open>__proto__\<close>, a property of \<open>Object.prototype\<close>, or
  a field of a bundle).
\<close>

theorem C10_register_then_get:
  "getPreKeyBundle (registerNewPreKeyBundle srv u b) u = BundleV b
   \<and> getPreKeyBundle (registerNewPreKeyBundle (registerNewPreKeyBundle srv u b') u b) u
       = BundleV b
   \<and> (u \<notin> fst ` set regs \<and> u \<notin> set inheritedNames \<longrightarrow>
        getPreKeyBundle (registerAll newSignalServerStore regs) u = Undefined)"
proof -
  have "getPreKeyBundle (registerAll newSignalServerStore regs) u = Undefined"
    if "u \<notin> fst ` set regs" and "u \<notin> set inheritedNames"
  proof -
    have "properties (registerAll newSignalServerStore regs) u = None"
      using that(1) by (simp add: properties_registerAll newSignalServerStore_def)
    with that(2) show ?thesis by (rule get_not_inherited)
  qed
  then show ?thesis by (simp add: get_after_register)
qed

text \<open>
  The amended C10 at a concrete input: the second user's bundle registered under
  \<open>user1\<close>, twice, and \<open>user1\<close> read on a server where only
  \<open>user2\<close> was registered.
\<close>

theorem C10_register_then_get_witness:
  "getPreKeyBundle (registerNewPreKeyBundle newSignalServerStore user1 demoBundle2) user1
     = BundleV demoBundle2
   \<and> getPreKeyBundle
        (registerNewPreKeyBundle
           (registerNewPreKeyBundle newSignalServerStore user1
              (demoBundle2\<lparr>registrationId := None\<rparr>))
           user1 demoBundle2) user1
       = BundleV demoBundle2
   \<and> user1 \<notin> fst ` set [(user2, demoBundle2)]
   \<and> user1 \<notin> set inheritedNames
   \<and> getPreKeyBundle (registerAll newSignalServerStore [(user2, demoBundle2)]) user1
       = Undefined"
  using C10_register_then_get
    [of newSignalServerStore user1 demoBundle2 "demoBundle2\<lparr>registrationId := None\<rparr>"
        "[(user2, demoBundle2)]"]
  by (simp add: user1_def user2_def inheritedNames_def objectPrototypeFunctions_def)

text \<open>
  C10 as stated fails: \<open>constructor\<close> was never registered on a new server,
  and \<open>getPreKeyBundle\<close> returns the function that every object inherits
  under that name.
\<close>

theorem C10_unregistered_constructor:
  "getPreKeyBundle newSignalServerStore ''constructor'' = FunctionV ''constructor''
   \<and> getPreKeyBundle newSignalServerStore ''constructor'' \<noteq> Undefined"
  by (simp add: getPreKeyBundle_def newSignalServerStore_def objectPrototypeGet_def
        objectPrototypeFunctions_def)

subsection \<open>Initialisation and the bundle\<close>

lemma generateIdentityAsync_identity:
  "getIdentityKeyPair (store (fst (generateIdentityAsync m w)))
     = Some (createKeyPair (entropy w))"
  by (simp add: generateIdentityAsync_def Let_def put_def getIdentityKeyPair_def
        generateIdentityKeyPair_def)

lemma generateIdentityAsync_userId:
  "userId (fst (generateIdentityAsync m w)) = userId m"
  by (simp add: generateIdentityAsync_def Let_def)

lemma generatePreKeyBundleAsync_ok:
  assumes "getIdentityKeyPair (store m) = Some ik"
  shows "generatePreKeyBundleAsync m i j w =
     (Inr \<lparr>identityKey = pubKey ik,
           registrationId = getLocalRegistrationId (store m),
           preKey = \<lparr>keyId = i, publicKey = pubKey (createKeyPair (entropy w))\<rparr>,
           signedPreKey = \<lparr>keyId = j, publicKey = pubKey (createKeyPair (entropy w + 1)),
             signature = Ed25519Sign (privKey ik) (pubKey (createKeyPair (entropy w + 1)))\<rparr>\<rparr>,
      m\<lparr>store := storeSignedPreKey (storePreKey (store m) i (createKeyPair (entropy w))) j
                    (createKeyPair (entropy w + 1))\<rparr>,
      w\<lparr>entropy := entropy w + 2\<rparr>)"
  using assms
  by (simp add: generatePreKeyBundleAsync_def Let_def generateSignedPreKey_def
        generatePreKey_def)

text \<open>
  C4. For every pair of ids, on a manager whose store holds an identity key pair,
  \<open>_generatePreKeyBundleAsync(preKeyId, signedPreKeyId)\<close> generates one
  pre-key pair and one signed pre-key pair, two different pairs drawn from the entropy;
  it stores both under their ids and changes nothing else of the store; and it returns
  the bundle that holds exactly the identity public key, the registration id of the
  store, the pre-key's public key with its id, and the signed pre-key's public key with
  its id and with the signature of that public key under the identity's private key.
\<close>

theorem C4_generate_bundle:
  assumes "getIdentityKeyPair (store m) = Some identity"
  shows "(case generatePreKeyBundleAsync m preKeyId signedPreKeyId w of
            (r, m', w') \<Rightarrow>
              (case (r, loadPreKey (store m') preKeyId,
                        loadSignedPreKey (store m') signedPreKeyId) of
                 (Inr bundle, Some pk, Some spk) \<Rightarrow>
                   bundle =
                     \<lparr>identityKey = pubKey identity,
                      registrationId = getLocalRegistrationId (store m),
                      preKey = \<lparr>keyId = preKeyId, publicKey = pubKey pk\<rparr>,
                      signedPreKey =
                        \<lparr>keyId = signedPreKeyId, publicKey = pubKey spk,
                         signature = Ed25519Sign (privKey identity) (pubKey spk)\<rparr>\<rparr>
                   \<and> pk = keyPair (generatePreKey preKeyId (entropy w))
                   \<and> spk = createKeyPair (entropy w + 1)
                   \<and> pk \<noteq> spk
                   \<and> preKeys (store m') = (preKeys (store m))(preKeyId \<mapsto> pk)
                   \<and> signedPreKeys (store m')
                       = (signedPreKeys (store m))(signedPreKeyId \<mapsto> spk)
                   \<and> items (store m') = items (store m)
                   \<and> sessions (store m') = sessions (store m)
                   \<and> server w' = server w
               | _ \<Rightarrow> False))"
  by (simp add: generatePreKeyBundleAsync_ok [OF assms] storeSignedPreKey_def storePreKey_def
        loadPreKey_def loadSignedPreKey_def generatePreKey_def createKeyPair_def)

text \<open>
  C4 at a concrete input: a new manager after \<open>_generateIdentityAsync\<close> at
  the entropy 8, asked for a bundle with the id 7 for both keys.
\<close>

theorem C4_generate_bundle_witness:
  "getIdentityKeyPair
     (store (fst (generateIdentityAsync (newSignalProtocolManager user1) demoWorld)))
     = Some (createKeyPair 8)
   \<and> fst (generatePreKeyBundleAsync
            (fst (generateIdentityAsync (newSignalProtocolManager user1) demoWorld)) 7 7
            (snd (generateIdentityAsync (newSignalProtocolManager user1) demoWorld)))
       = Inr \<lparr>identityKey = Pub 8, registrationId = Some 9,
              preKey = \<lparr>keyId = 7, publicKey = Pub 10\<rparr>,
              signedPreKey = \<lparr>keyId = 7, publicKey = Pub 11,
                              signature = Ed25519Sign (Priv 8) (Pub 11)\<rparr>\<rparr>"
proof -
  have i: "getIdentityKeyPair
             (store (fst (generateIdentityAsync (newSignalProtocolManager user1) demoWorld)))
           = Some (createKeyPair 8)"
    by (simp add: demo_defs model_defs)
  from C4_generate_bundle
    [OF i, of 7 7 "snd (generateIdentityAsync (newSignalProtocolManager user1) demoWorld)"]
  show ?thesis using i
    by (simp add: demo_defs model_defs)
qed

text \<open>
  C9. For every user id, \<open>initializeAsync\<close> succeeds and registers, under
  that id, a bundle whose one-time pre-key id is 123 and whose signed pre-key id is 456:
  every user's published bundle carries the same two key ids.
\<close>

theorem C9_initializeAsync_key_ids:
  "(case initializeAsync m w of
      (r, m', w') \<Rightarrow>
        r = Inr () \<and> userId m' = userId m \<and>
        (case getPreKeyBundle (server w') (userId m) of
           BundleV b \<Rightarrow> keyId (preKey b) = 123 \<and> keyId (signedPreKey b) = 456
         | _ \<Rightarrow> False))"
proof -
  obtain m1 w1 where g: "generateIdentityAsync m w = (m1, w1)"
    by (cases "generateIdentityAsync m w")
  have ik: "getIdentityKeyPair (store m1) = Some (createKeyPair (entropy w))"
    using generateIdentityAsync_identity [of m w] g by simp
  have uid: "userId m1 = userId m"
    using generateIdentityAsync_userId [of m w] g by simp
  show ?thesis
    by (simp add: initializeAsync_def g generatePreKeyBundleAsync_ok [OF ik] uid
          get_after_register)
qed

subsection \<open>The calls of encryptMessageAsync and decryptMessageAsync\<close>

lemma encryptMessageAsync_calls:
  "calls (snd (snd (encryptMessageAsync m r msg w))) =
     calls w @ [GetPreKeyBundle r, ProcessPreKey (SignalProtocolAddress r 123)]
       @ (case processPreKey (store m) (SignalProtocolAddress r 123)
                 (getPreKeyBundle (server w) r) (entropy w) of
            Inl e \<Rightarrow> [] | Inr x \<Rightarrow> [Encrypt (SignalProtocolAddress r 123)])"
  by (simp add: encryptMessageAsync_def Let_def split: sum.splits prod.splits)

lemma encryptMessageAsync_result:
  "fst (encryptMessageAsync m r msg w) =
     (case processPreKey (store m) (SignalProtocolAddress r 123)
             (getPreKeyBundle (server w) r) (entropy w) of
        Inl e \<Rightarrow> Inl e
      | Inr (st1, rng1) \<Rightarrow>
          (case encrypt st1 (SignalProtocolAddress r 123) msg of
             Inl e \<Rightarrow> Inl e
           | Inr (cipherText, st2) \<Rightarrow> Inr cipherText))"
  by (simp add: encryptMessageAsync_def Let_def util_toArrayBuffer_def
      split: sum.splits prod.splits)

lemma decryptMessageAsync_calls:
  "calls (snd (snd (decryptMessageAsync p m r ct w))) =
     calls w @ [if type ct = 3 then DecryptPreKeyWhisperMessage (SignalProtocolAddress r 123)
                else DecryptWhisperMessage (SignalProtocolAddress r 123)]"
  by (simp add: decryptMessageAsync_def Let_def split: sum.splits prod.splits)

lemma decryptMessageAsync_prekey_result:
  "type ct = 3 \<Longrightarrow>
   decryptMessageAsync p m r ct w =
     (case decryptPreKeyWhisperMessage (store m) (SignalProtocolAddress r 123) (body ct)
             (entropy w) of
        Inl e \<Rightarrow>
          (Inl e, m,
           w\<lparr>calls := calls w @ [DecryptPreKeyWhisperMessage (SignalProtocolAddress r 123)]\<rparr>)
      | Inr (d, st1, rng1) \<Rightarrow>
          (Inr d, m\<lparr>store := st1\<rparr>,
           w\<lparr>calls := calls w @ [DecryptPreKeyWhisperMessage (SignalProtocolAddress r 123)],
             entropy := rng1\<rparr>))"
  by (simp add: decryptMessageAsync_def Let_def util_toString_def split: sum.splits prod.splits)

lemma decryptMessageAsync_ordinary_result:
  "type ct \<noteq> 3 \<Longrightarrow>
   decryptMessageAsync p m r ct w =
     (case decryptWhisperMessage (store m) (SignalProtocolAddress r 123) (body ct)
             (entropy w) of
        Inl e \<Rightarrow>
          (p, m, w\<lparr>calls := calls w @ [DecryptWhisperMessage (SignalProtocolAddress r 123)]\<rparr>)
      | Inr (d, st1, rng1) \<Rightarrow>
          (p, m\<lparr>store := st1\<rparr>,
           w\<lparr>calls := calls w @ [DecryptWhisperMessage (SignalProtocolAddress r 123)],
             entropy := rng1\<rparr>))"
  by (simp add: decryptMessageAsync_def Let_def util_toString_def split: sum.splits prod.splits)

text \<open>
  C3, as amended. \<open>encryptMessageAsync\<close> fetches the remote user's bundle
  from the server and hands it to \<open>processPreKey\<close> on every call, whether or
  not the store holds a session for that user: these are always its first two calls.
  Only when \<open>processPreKey\<close> has succeeded does it encrypt, and then on the
  store that \<open>processPreKey\<close> returned.
\<close>

theorem C3_bundle_processed_on_every_call:
  "calls (snd (snd (encryptMessageAsync m r msg w))) =
     calls w @ [GetPreKeyBundle r, ProcessPreKey (SignalProtocolAddress r 123)]
       @ (case processPreKey (store m) (SignalProtocolAddress r 123)
                 (getPreKeyBundle (server w) r) (entropy w) of
            Inl e \<Rightarrow> [] | Inr x \<Rightarrow> [Encrypt (SignalProtocolAddress r 123)])
   \<and> fst (encryptMessageAsync m r msg w) =
     (case processPreKey (store m) (SignalProtocolAddress r 123)
             (getPreKeyBundle (server w) r) (entropy w) of
        Inl e \<Rightarrow> Inl e
      | Inr (st1, rng1) \<Rightarrow>
          (case encrypt st1 (SignalProtocolAddress r 123) msg of
             Inl e \<Rightarrow> Inl e
           | Inr (cipherText, st2) \<Rightarrow> Inr cipherText))"
  by (simp only: encryptMessageAsync_calls encryptMessageAsync_result simp_thms)

text \<open>
  C3 as stated fails: after a first message to \<open>user2\<close> the first user's
  store holds a session for \<open>user2\<close>, whose sending chain has been advanced
  once. A second \<open>encryptMessageAsync\<close> to \<open>user2\<close> fetches and
  processes the bundle again; the session it leaves has again sent one message, not two,
  and the envelope is a pre-key message.
\<close>

theorem C3_second_message_fetches_again:
  "(case encryptMessageAsync demoManager1 user2 ''one'' demoWorld of
      (r1, m1a, w1) \<Rightarrow>
        map_option sendingCounter
          (loadSession (store m1a) (SignalProtocolAddress user2 123)) = Some 1
        \<and> (case encryptMessageAsync m1a user2 ''two'' w1 of
              (r2, m1b, w2) \<Rightarrow>
                newCalls w1 w2 =
                  [GetPreKeyBundle user2, ProcessPreKey (SignalProtocolAddress user2 123),
                   Encrypt (SignalProtocolAddress user2 123)]
                \<and> map_option sendingCounter
                      (loadSession (store m1b) (SignalProtocolAddress user2 123)) = Some 1
                \<and> map_sum id type r2 = Inr PREKEY_MESSAGE))"
  by code_simp

lemma decryptPreKeyWhisperMessage_session:
  "decryptPreKeyWhisperMessage st a b rng = Inr (d, st', rng') \<Longrightarrow> loadSession st' a \<noteq> None"
  by (auto simp: decryptPreKeyWhisperMessage_def Let_def storeSession_def loadSession_def
      split: messageBody.splits option.splits sum.splits)

text \<open>
  C5. \<open>decryptMessageAsync\<close> makes exactly one decryption call, chosen by
  the \<open>type\<close> field of the envelope alone:
  \<open>decryptPreKeyWhisperMessage\<close> when the field is 3, the tag of a pre-key
  message, and \<open>decryptWhisperMessage\<close> for every other value. On the
  pre-key path the outcome of the function is the outcome of that call, and when it
  succeeds the store holds a session for the sender afterwards, whatever it held before.
  On the other path the store is left as \<open>decryptWhisperMessage\<close> leaves it.
\<close>

theorem C5_dispatch_on_type:
  "calls (snd (snd (decryptMessageAsync p m r ct w))) =
     calls w @ [if type ct = PREKEY_MESSAGE
                then DecryptPreKeyWhisperMessage (SignalProtocolAddress r 123)
                else DecryptWhisperMessage (SignalProtocolAddress r 123)]
   \<and> (type ct = PREKEY_MESSAGE \<longrightarrow>
        fst (decryptMessageAsync p m r ct w) =
          (case decryptPreKeyWhisperMessage (store m) (SignalProtocolAddress r 123) (body ct)
                  (entropy w) of
             Inl e \<Rightarrow> Inl e | Inr (d, st1, rng1) \<Rightarrow> Inr d)
        \<and> (isl (fst (decryptMessageAsync p m r ct w)) \<or>
            loadSession (store (fst (snd (decryptMessageAsync p m r ct w))))
              (SignalProtocolAddress r 123) \<noteq> None))
   \<and> (type ct \<noteq> PREKEY_MESSAGE \<longrightarrow>
        store (fst (snd (decryptMessageAsync p m r ct w))) =
          (case decryptWhisperMessage (store m) (SignalProtocolAddress r 123) (body ct)
                  (entropy w) of
             Inl e \<Rightarrow> store m | Inr (d, st1, rng1) \<Rightarrow> st1))"
proof -
  have 1: "calls (snd (snd (decryptMessageAsync p m r ct w))) =
     calls w @ [if type ct = 3
                then DecryptPreKeyWhisperMessage (SignalProtocolAddress r 123)
                else DecryptWhisperMessage (SignalProtocolAddress r 123)]"
    by (simp add: decryptMessageAsync_calls)
  have 2: "fst (decryptMessageAsync p m r ct w) =
          (case decryptPreKeyWhisperMessage (store m) (SignalProtocolAddress r 123) (body ct)
                  (entropy w) of
             Inl e \<Rightarrow> Inl e | Inr (d, st1, rng1) \<Rightarrow> Inr d)
        \<and> (isl (fst (decryptMessageAsync p m r ct w)) \<or>
            loadSession (store (fst (snd (decryptMessageAsync p m r ct w))))
              (SignalProtocolAddress r 123) \<noteq> None)" if "type ct = 3"
    using that
    by (auto simp: decryptMessageAsync_prekey_result split: sum.splits
          dest: decryptPreKeyWhisperMessage_session)
  have 3: "store (fst (snd (decryptMessageAsync p m r ct w))) =
          (case decryptWhisperMessage (store m) (SignalProtocolAddress r 123) (body ct)
                  (entropy w) of
             Inl e \<Rightarrow> store m | Inr (d, st1, rng1) \<Rightarrow> st1)" if "type ct \<noteq> 3"
    using that by (simp add: decryptMessageAsync_ordinary_result split: sum.splits)
  from 1 2 3 show ?thesis unfolding PREKEY_MESSAGE_def by blast
qed

text \<open>
  C5 at a concrete input: the second user, who holds no session for
  \<open>user1\<close>, decrypts the first user's pre-key envelope and holds a session
  afterwards; the same envelope with the type 1 goes to
  \<open>decryptWhisperMessage\<close>.
\<close>

theorem C5_dispatch_on_type_witness:
  "type demoEnvelope = PREKEY_MESSAGE
   \<and> loadSession (store demoManager2) (SignalProtocolAddress user1 123) = None
   \<and> fst (decryptMessageAsync (Inl TypeError) demoManager2 user1 demoEnvelope demoWorld)
       = Inr ''Hello User 2 !''
   \<and> loadSession (store (fst (snd (decryptMessageAsync (Inl TypeError) demoManager2 user1
          demoEnvelope demoWorld)))) (SignalProtocolAddress user1 123) \<noteq> None
   \<and> type (demoEnvelope\<lparr>type := 1\<rparr>) \<noteq> PREKEY_MESSAGE
   \<and> calls (snd (snd (decryptMessageAsync (Inl TypeError) demoManager2 user1
          (demoEnvelope\<lparr>type := 1\<rparr>) demoWorld)))
       = calls demoWorld @ [DecryptWhisperMessage (SignalProtocolAddress user1 123)]"
  using C5_dispatch_on_type [of "Inl TypeError" demoManager2 user1 demoEnvelope demoWorld]
    C5_dispatch_on_type
      [of "Inl TypeError" demoManager2 user1 "demoEnvelope\<lparr>type := 1\<rparr>" demoWorld]
  by (simp add: demo_defs model_defs)

text \<open>
  On an envelope of any type other than 3 the caller gets what \<open>util.toString\<close>
  makes of the Promise, whether the library's decryption fails or succeeds.
\<close>

lemma decryptMessageAsync_ordinary_outcome:
  "type ct \<noteq> 3 \<Longrightarrow> fst (decryptMessageAsync p m r ct w) = p"
  by (simp add: decryptMessageAsync_ordinary_result split: sum.splits prod.splits)

text \<open>
  C6 fails on the code. At a manager that holds no session for the sender, the library's
  \<open>decryptWhisperMessage\<close> fails with \<open>NoSession\<close> on an
  ordinary message; but \<open>decryptMessageAsync\<close> does not await that call, and
  what the caller gets is what \<open>util.toString\<close> makes of the Promise,
  whatever the call settles to.
\<close>

theorem C6_ordinary_failure_dropped:
  "decryptWhisperMessage (store (newSignalProtocolManager user2))
      (SignalProtocolAddress user1 123) (WhisperMessage msg) (entropy w) = Inl NoSession
   \<and> fst (decryptMessageAsync p (newSignalProtocolManager user2) user1
            \<lparr>type = ORDINARY_MESSAGE, body = WhisperMessage msg\<rparr> w) = p"
  by (simp add: decryptMessageAsync_def decryptWhisperMessage_def loadSession_def
        newSignalProtocolManager_def newSignalProtocolStore_def ORDINARY_MESSAGE_def
        util_toString_def Let_def)

subsection \<open>Addresses\<close>

lemma processPreKey_sessions:
  "processPreKey st a d rng = Inr (st', rng')
     \<Longrightarrow> dom (sessions st') = insert a (dom (sessions st))"
  by (auto simp: processPreKey_def Let_def storeSession_def
      split: jsvalue.splits option.splits if_splits)

lemma encrypt_sessions:
  "encrypt st a p = Inr (e, st') \<Longrightarrow> dom (sessions st') = insert a (dom (sessions st))"
  by (auto simp: encrypt_def Let_def storeSession_def split: option.splits)

lemma decryptPreKeyWhisperMessage_sessions:
  "decryptPreKeyWhisperMessage st a b rng = Inr (p, st', rng')
     \<Longrightarrow> dom (sessions st') = insert a (dom (sessions st))"
  by (auto simp: decryptPreKeyWhisperMessage_def Let_def storeSession_def removePreKey_def
      split: messageBody.splits option.splits sum.splits)

lemma decryptWhisperMessage_sessions:
  "decryptWhisperMessage st a b rng = Inr (p, st', rng')
     \<Longrightarrow> dom (sessions st') = insert a (dom (sessions st))"
  by (auto simp: decryptWhisperMessage_def Let_def storeSession_def
      split: messageBody.splits option.splits sum.splits)

lemma encryptMessageAsync_sessions:
  "dom (sessions (store (fst (snd (encryptMessageAsync m r msg w)))))
     \<subseteq> insert (SignalProtocolAddress r 123) (dom (sessions (store m)))"
proof (cases "processPreKey (store m) (SignalProtocolAddress r 123)
                (getPreKeyBundle (server w) r) (entropy w)")
  case (Inl e)
  then show ?thesis by (auto simp: encryptMessageAsync_def Let_def)
next
  case (Inr x)
  obtain st1 rng1 where x: "x = (st1, rng1)" by (cases x)
  have d1: "dom (sessions st1)
              = insert (SignalProtocolAddress r 123) (dom (sessions (store m)))"
    using Inr x by (simp add: processPreKey_sessions)
  show ?thesis
  proof (cases "encrypt st1 (SignalProtocolAddress r 123) (util_toArrayBuffer msg)")
    case (Inl e)
    then show ?thesis using Inr x d1 by (simp add: encryptMessageAsync_def Let_def)
  next
    case (Inr y)
    obtain c st2 where y: "y = (c, st2)" by (cases y)
    have "dom (sessions st2) = insert (SignalProtocolAddress r 123) (dom (sessions st1))"
      using Inr y by (simp add: encrypt_sessions)
    then show ?thesis
      using Inr y d1 x \<open>processPreKey _ _ _ _ = Inr x\<close>
      by (simp add: encryptMessageAsync_def Let_def)
  qed
qed

lemma decryptMessageAsync_sessions:
  "dom (sessions (store (fst (snd (decryptMessageAsync p m r ct w)))))
     \<subseteq> insert (SignalProtocolAddress r 123) (dom (sessions (store m)))"
proof (cases "type ct = 3")
  case True
  show ?thesis
  proof (cases "decryptPreKeyWhisperMessage (store m) (SignalProtocolAddress r 123) (body ct)
                  (entropy w)")
    case (Inl e)
    then show ?thesis using True by (auto simp: decryptMessageAsync_def Let_def)
  next
    case (Inr x)
    obtain d st1 rng1 where x: "x = (d, st1, rng1)" by (cases x)
    have "dom (sessions st1)
            = insert (SignalProtocolAddress r 123) (dom (sessions (store m)))"
      using Inr x by (simp add: decryptPreKeyWhisperMessage_sessions)
    then show ?thesis using True Inr x by (simp add: decryptMessageAsync_def Let_def)
  qed
next
  case False
  show ?thesis
  proof (cases "decryptWhisperMessage (store m) (SignalProtocolAddress r 123) (body ct)
                  (entropy w)")
    case (Inl e)
    then show ?thesis using False by (auto simp: decryptMessageAsync_def Let_def)
  next
    case (Inr x)
    obtain d st1 rng1 where x: "x = (d, st1, rng1)" by (cases x)
    have "dom (sessions st1)
            = insert (SignalProtocolAddress r 123) (dom (sessions (store m)))"
      using Inr x by (simp add: decryptWhisperMessage_sessions)
    then show ?thesis using False Inr x by (simp add: decryptMessageAsync_def Let_def)
  qed
qed

text \<open>
  C7. Every call that \<open>encryptMessageAsync\<close> and
  \<open>decryptMessageAsync\<close> make with an address is made with the address of
  the remote user id and the device id 123. The only session they can add to the store
  is the one under that address, so a store whose sessions all have the device id 123
  stays so.
\<close>

theorem C7_device_id:
  "(\<forall>c \<in> set (newCalls w (snd (snd (encryptMessageAsync m r msg w)))).
      callAddress c = None \<or> callAddress c = Some (SignalProtocolAddress r 123))
   \<and> (\<forall>c \<in> set (newCalls w (snd (snd (decryptMessageAsync p m r ct w)))).
      callAddress c = None \<or> callAddress c = Some (SignalProtocolAddress r 123))
   \<and> dom (sessions (store (fst (snd (encryptMessageAsync m r msg w)))))
        \<subseteq> insert (SignalProtocolAddress r 123) (dom (sessions (store m)))
   \<and> dom (sessions (store (fst (snd (decryptMessageAsync p m r ct w)))))
        \<subseteq> insert (SignalProtocolAddress r 123) (dom (sessions (store m)))
   \<and> ((\<forall>a \<in> dom (sessions (store m)). getDeviceId a = 123) \<longrightarrow>
        (\<forall>a \<in> dom (sessions (store (fst (snd (encryptMessageAsync m r msg w))))).
           getDeviceId a = 123)
        \<and> (\<forall>a \<in> dom (sessions (store (fst (snd (decryptMessageAsync p m r ct w))))).
           getDeviceId a = 123))"
proof -
  have c: "\<forall>c \<in> set (newCalls w (snd (snd (encryptMessageAsync m r msg w)))).
      callAddress c = None \<or> callAddress c = Some (SignalProtocolAddress r 123)"
    "\<forall>c \<in> set (newCalls w (snd (snd (decryptMessageAsync p m r ct w)))).
      callAddress c = None \<or> callAddress c = Some (SignalProtocolAddress r 123)"
    by (simp_all add: newCalls_def encryptMessageAsync_calls decryptMessageAsync_calls
          split: sum.splits)
  note e = encryptMessageAsync_sessions [of m r msg w]
  note d = decryptMessageAsync_sessions [of p m r ct w]
  have "getDeviceId a = 123"
    if "\<forall>a \<in> dom (sessions (store m)). getDeviceId a = 123"
      and "a \<in> insert (SignalProtocolAddress r 123) (dom (sessions (store m)))" for a
    using that by auto
  with e d have "(\<forall>a \<in> dom (sessions (store m)). getDeviceId a = 123) \<longrightarrow>
        (\<forall>a \<in> dom (sessions (store (fst (snd (encryptMessageAsync m r msg w))))).
           getDeviceId a = 123)
        \<and> (\<forall>a \<in> dom (sessions (store (fst (snd (decryptMessageAsync p m r ct w))))).
           getDeviceId a = 123)"
    by blast
  with c e d show ?thesis by blast
qed

text \<open>
  C7 at a concrete input: the first user, who holds no session, encrypts for
  \<open>user2\<close> and then decrypts an envelope from \<open>user2\<close>.
\<close>

theorem C7_device_id_witness:
  "newCalls demoWorld
       (snd (snd (encryptMessageAsync demoManager1 user2 ''Hello User 2 !'' demoWorld)))
     = [GetPreKeyBundle user2, ProcessPreKey (SignalProtocolAddress user2 123),
        Encrypt (SignalProtocolAddress user2 123)]
   \<and> newCalls demoWorld
       (snd (snd (decryptMessageAsync (Inl TypeError) demoManager1 user2 demoEnvelope
                    demoWorld)))
     = [DecryptPreKeyWhisperMessage (SignalProtocolAddress user2 123)]
   \<and> dom (sessions (store demoManager1)) = {}
   \<and> dom (sessions (store (fst (snd
          (encryptMessageAsync demoManager1 user2 ''Hello User 2 !'' demoWorld)))))
       = {SignalProtocolAddress user2 123}"
  using C7_device_id
    [where w = demoWorld and m = demoManager1 and r = user2 and msg = "''Hello User 2 !''"
       and p = "Inl TypeError" and ct = demoEnvelope]
  by (simp add: demo_defs model_defs)

subsection \<open>The round trip\<close>

lemma wellFormed_createKeyPair: "wellFormed (createKeyPair n)"
  by (simp add: wellFormed_def createKeyPair_def)

lemma wellFormedE:
  assumes "wellFormed kp"
  obtains n where "pubKey kp = Pub n" and "privKey kp = Priv n"
  using assms by (cases "pubKey kp"; cases "privKey kp") (auto simp: wellFormed_def)

lemma dh_commute:
  assumes "wellFormed a" and "wellFormed b"
  shows "dh (privKey a) (pubKey b) = dh (privKey b) (pubKey a)"
proof -
  from assms(1) obtain i where "pubKey a = Pub i" "privKey a = Priv i"
    by (rule wellFormedE)
  moreover from assms(2) obtain j where "pubKey b = Pub j" "privKey b = Priv j"
    by (rule wellFormedE)
  ultimately show ?thesis by (simp add: min.commute max.commute)
qed

lemma verify_own_signature:
  assumes "wellFormed ik"
  shows "Ed25519Verify (pubKey ik) msg (Ed25519Sign (privKey ik) msg)"
proof -
  from assms obtain i where "pubKey ik = Pub i" "privKey ik = Priv i" by (rule wellFormedE)
  then show ?thesis by simp
qed

text \<open>\<open>initializeAsync\<close> leaves a manager that holds its published pre-keys.\<close>

lemma initializeAsync_holdsPublishedPreKeys:
  "(case initializeAsync m w of (r, m', w') \<Rightarrow> hasIdentity m' \<and> holdsPublishedPreKeys m' w')"
  by (simp add: hasIdentity_def holdsPublishedPreKeys_def wellFormed_def model_defs)

text \<open>
  The envelope that \<open>encryptMessageAsync\<close> produces for a recipient who
  holds its published pre-keys.
\<close>

lemma encryptMessageAsync_first_contact:
  assumes A: "getIdentityKeyPair (store A) = Some ikA"
    and B: "holdsPublishedPreKeys B w"
  shows "\<exists>ikB pkB spkB.
    getIdentityKeyPair (store B) = Some ikB \<and> loadPreKey (store B) 123 = Some pkB
    \<and> loadSignedPreKey (store B) 456 = Some spkB
    \<and> wellFormed ikB \<and> wellFormed pkB \<and> wellFormed spkB
    \<and> encryptMessageAsync A (userId B) P w =
       (Inr \<lparr>type = 3, body = PreKeyWhisperMessage
               \<lparr>senderIdentityKey = pubKey ikA,
                senderRegistrationId = getLocalRegistrationId (store A),
                usedPreKeyId = 123, usedSignedPreKeyId = 456,
                senderEphemeralKey = Pub (entropy w)\<rparr>
               \<lparr>ratchetKey = Pub (entropy w + 1), counter = 0,
                sealed = AEAD (HMAC_msg (ChainKey (KDF
                   [dh (privKey ikA) (pubKey spkB),
                    dh (Priv (entropy w)) (pubKey ikB),
                    dh (Priv (entropy w)) (pubKey spkB),
                    dh (Priv (entropy w)) (pubKey pkB)]))) P\<rparr>\<rparr>,
        fst (snd (encryptMessageAsync A (userId B) P w)),
        snd (snd (encryptMessageAsync A (userId B) P w)))"
  using A B
  apply (simp add: holdsPublishedPreKeys_def split: option.splits)
  apply (clarsimp simp: encryptMessageAsync_def processPreKey_def verify_own_signature Let_def
         encrypt_def loadSession_def storeSession_def advanceChain_def createKeyPair_def
         PREKEY_MESSAGE_def util_toArrayBuffer_def)
  done

text \<open>
  C1, as amended. For every plaintext \<open>P\<close>, every manager \<open>A\<close> with an identity and
  every other manager \<open>B\<close> that holds its published pre-keys (it has been initialised,
  and no message has used up its one-time pre-key), \<open>A\<close>'s
  \<open>encryptMessageAsync(B, P)\<close> produces a \<open>PREKEY_MESSAGE\<close> envelope, and \<open>B\<close>'s
  \<open>decryptMessageAsync\<close> of that envelope yields exactly \<open>P\<close>. This is so whether or
  not \<open>A\<close> has a session for \<open>B\<close> already.
\<close>

theorem C1_first_message_round_trip:
  assumes A: "hasIdentity A" and B: "holdsPublishedPreKeys B w"
  shows "(case encryptMessageAsync A (userId B) P w of
            (r, A', w') \<Rightarrow>
              (case r of
                 Inl e \<Rightarrow> False
               | Inr env \<Rightarrow>
                   type env = PREKEY_MESSAGE
                   \<and> fst (decryptMessageAsync p B (userId A) env w') = Inr P))"
proof -
  from A obtain ikA where
    ikA: "getIdentityKeyPair (store A) = Some ikA" and wA: "wellFormed ikA"
    by (auto simp: hasIdentity_def split: option.splits)
  from encryptMessageAsync_first_contact [OF ikA B, of P]
  obtain ikB pkB spkB where
    ikB: "getIdentityKeyPair (store B) = Some ikB" and
    pkB: "loadPreKey (store B) 123 = Some pkB" and
    spkB: "loadSignedPreKey (store B) 456 = Some spkB" and
    wf: "wellFormed ikB" "wellFormed pkB" "wellFormed spkB" and
    enc: "encryptMessageAsync A (userId B) P w =
       (Inr \<lparr>type = 3, body = PreKeyWhisperMessage
               \<lparr>senderIdentityKey = pubKey ikA,
                senderRegistrationId = getLocalRegistrationId (store A),
                usedPreKeyId = 123, usedSignedPreKeyId = 456,
                senderEphemeralKey = Pub (entropy w)\<rparr>
               \<lparr>ratchetKey = Pub (entropy w + 1), counter = 0,
                sealed = AEAD (HMAC_msg (ChainKey (KDF
                   [dh (privKey ikA) (pubKey spkB),
                    dh (Priv (entropy w)) (pubKey ikB),
                    dh (Priv (entropy w)) (pubKey spkB),
                    dh (Priv (entropy w)) (pubKey pkB)]))) P\<rparr>\<rparr>,
        fst (snd (encryptMessageAsync A (userId B) P w)),
        snd (snd (encryptMessageAsync A (userId B) P w)))"
    by blast
  have e: "privKey (createKeyPair n) = Priv n" "pubKey (createKeyPair n) = Pub n" for n
    by (simp_all add: createKeyPair_def)
  have c1: "dh (privKey spkB) (pubKey ikA) = dh (privKey ikA) (pubKey spkB)"
    using wA wf by (simp add: dh_commute)
  have c2: "dh (privKey kp) (Pub n) = dh (Priv n) (pubKey kp)" if "wellFormed kp" for kp n
    using dh_commute [OF that wellFormed_createKeyPair [of n]] by (simp add: e)
  show ?thesis
    apply (subst enc)
    apply (simp add: PREKEY_MESSAGE_def decryptMessageAsync_def
        decryptPreKeyWhisperMessage_def ikB pkB spkB Let_def receiveMessage_def c1 c2 wf
        advanceChain_def util_toString_def)
    done
qed

text \<open>
  The amended C1 at a concrete input: the two users of the demo right after their
  initialisation, and the demo's first message.
\<close>

theorem C1_first_message_round_trip_witness:
  "hasIdentity demoManager1 \<and> holdsPublishedPreKeys demoManager2 demoWorld
   \<and> userId demoManager1 = user1 \<and> userId demoManager2 = user2
   \<and> (case encryptMessageAsync demoManager1 (userId demoManager2) ''Hello User 2 !''
              demoWorld of
         (r, m1', w') \<Rightarrow>
           (case r of
              Inl e \<Rightarrow> False
            | Inr env \<Rightarrow>
                type env = PREKEY_MESSAGE
                \<and> fst (decryptMessageAsync (Inl TypeError) demoManager2 (userId demoManager1)
                         env w')
                    = Inr ''Hello User 2 !''))"
proof -
  have i1: "hasIdentity demoManager1" and i2: "holdsPublishedPreKeys demoManager2 demoWorld"
    by (simp_all add: demo_defs hasIdentity_def holdsPublishedPreKeys_def wellFormed_def
          model_defs)
  from C1_first_message_round_trip
    [OF i1 i2, where P = "''Hello User 2 !''" and p = "Inl TypeError"]
  show ?thesis using i1 i2 by (simp add: demo_state)
qed

text \<open>
  C1 as stated fails on a later message. The first user sends \<open>one\<close> and the
  second decrypts it. The first user then sends \<open>two\<close>:
  \<open>encryptMessageAsync\<close> processes the bundle again, the envelope is again a
  pre-key message that names the one-time pre-key 123, which the second user has used
  up, and the decryption fails.
\<close>

theorem C1_second_message_fails:
  "(case encryptMessageAsync demoManager1 user2 ''one'' demoWorld of
      (Inr env1, m1a, w1) \<Rightarrow>
        (case decryptMessageAsync (Inl TypeError) demoManager2 user1 env1 w1 of
           (r1, m2a, w2) \<Rightarrow>
             r1 = Inr ''one'' \<and>
             (case encryptMessageAsync m1a user2 ''two'' w2 of
                (Inr env2, m1b, w3) \<Rightarrow>
                  type env2 = PREKEY_MESSAGE \<and>
                  fst (decryptMessageAsync (Inl TypeError) m2a user1 env2 w3)
                    = Inl UnknownPreKeyId
              | _ \<Rightarrow> False))
    | _ \<Rightarrow> False)"
  by code_simp

subsection \<open>The scenario of runDemo\<close>

text \<open>
  The two steps together are \<open>runDemo\<close>.
\<close>

lemma runDemo_in_two_steps:
  "runDemo p seed = runDemoReply p (runDemoFirstExchange p seed)"
  by (simp add: runDemo_def runDemoFirstExchange_def runDemoReply_def Let_def
        split: prod.splits sum.splits)

text \<open>
  C2, as amended. In \<open>runDemo\<close>, for every entropy, neither user holds a session at
  the start. The first user's \<open>encryptMessageAsync\<close> to the second produces a
  \<open>PREKEY_MESSAGE\<close> envelope, which the second user decrypts back to
  \<open>Hello User 2 !\<close>; after this first exchange each side holds a session for the
  other, and six calls have been made, one bundle fetch among them. The run goes on from
  that state: the second user's \<open>encryptMessageAsync\<close> of the reply fetches the first
  user's bundle and processes it, and produces a \<open>PREKEY_MESSAGE\<close> envelope too, which
  the first user decrypts back to \<open>What is up user 1?\<close> through
  \<open>decryptPreKeyWhisperMessage\<close>. Each side holds a session for the other at the end.
\<close>

theorem C2_runDemo:
  "runDemo p seed = runDemoReply p (runDemoFirstExchange p seed)
   \<and> loadSession (store (newSignalProtocolManager user1)) (SignalProtocolAddress user2 123) = None
   \<and> loadSession (store (newSignalProtocolManager user2)) (SignalProtocolAddress user1 123) = None
   \<and> (case runDemoFirstExchange p seed of
      (r, m1a, m2a, w4) \<Rightarrow>
        (case r of
           Inl e \<Rightarrow> False
         | Inr (encrypted, decrypted) \<Rightarrow>
             type encrypted = PREKEY_MESSAGE \<and> decrypted = ''Hello User 2 !'')
        \<and> calls w4 =
            [RegisterNewPreKeyBundle user1, RegisterNewPreKeyBundle user2,
             GetPreKeyBundle user2, ProcessPreKey (SignalProtocolAddress user2 123),
             Encrypt (SignalProtocolAddress user2 123),
             DecryptPreKeyWhisperMessage (SignalProtocolAddress user1 123)]
        \<and> loadSession (store m1a) (SignalProtocolAddress user2 123) \<noteq> None
        \<and> loadSession (store m2a) (SignalProtocolAddress user1 123) \<noteq> None)
   \<and> (case runDemo p seed of
      (r, m1, m2, w) \<Rightarrow>
        (case r of
           Inl e \<Rightarrow> False
         | Inr d \<Rightarrow>
             type (encryptedMessage d) = PREKEY_MESSAGE
             \<and> decryptedMessage d = ''Hello User 2 !''
             \<and> type (encryptedMessage2 d) = PREKEY_MESSAGE
             \<and> decryptedMessage2 d = ''What is up user 1?'')
        \<and> calls w =
            [RegisterNewPreKeyBundle user1, RegisterNewPreKeyBundle user2,
             GetPreKeyBundle user2, ProcessPreKey (SignalProtocolAddress user2 123),
             Encrypt (SignalProtocolAddress user2 123),
             DecryptPreKeyWhisperMessage (SignalProtocolAddress user1 123),
             GetPreKeyBundle user1, ProcessPreKey (SignalProtocolAddress user1 123),
             Encrypt (SignalProtocolAddress user1 123),
             DecryptPreKeyWhisperMessage (SignalProtocolAddress user2 123)]
        \<and> loadSession (store m1) (SignalProtocolAddress user2 123) \<noteq> None
        \<and> loadSession (store m2) (SignalProtocolAddress user1 123) \<noteq> None)"
proof -
  have first: "(case runDemoFirstExchange p seed of
      (r, m1a, m2a, w4) \<Rightarrow>
        (case r of
           Inl e \<Rightarrow> False
         | Inr (encrypted, decrypted) \<Rightarrow>
             type encrypted = PREKEY_MESSAGE \<and> decrypted = ''Hello User 2 !'')
        \<and> calls w4 =
            [RegisterNewPreKeyBundle user1, RegisterNewPreKeyBundle user2,
             GetPreKeyBundle user2, ProcessPreKey (SignalProtocolAddress user2 123),
             Encrypt (SignalProtocolAddress user2 123),
             DecryptPreKeyWhisperMessage (SignalProtocolAddress user1 123)]
        \<and> loadSession (store m1a) (SignalProtocolAddress user2 123) \<noteq> None
        \<and> loadSession (store m2a) (SignalProtocolAddress user1 123) \<noteq> None)"
    by (simp add: runDemoFirstExchange_def model_defs)
  have none: "loadSession (store (newSignalProtocolManager user1)) (SignalProtocolAddress user2 123) = None"
    "loadSession (store (newSignalProtocolManager user2)) (SignalProtocolAddress user1 123) = None"
    by (simp_all add: model_defs)
  have whole: "(case runDemo p seed of
      (r, m1, m2, w) \<Rightarrow>
        (case r of
           Inl e \<Rightarrow> False
         | Inr d \<Rightarrow>
             type (encryptedMessage d) = PREKEY_MESSAGE
             \<and> decryptedMessage d = ''Hello User 2 !''
             \<and> type (encryptedMessage2 d) = PREKEY_MESSAGE
             \<and> decryptedMessage2 d = ''What is up user 1?'')
        \<and> calls w =
            [RegisterNewPreKeyBundle user1, RegisterNewPreKeyBundle user2,
             GetPreKeyBundle user2, ProcessPreKey (SignalProtocolAddress user2 123),
             Encrypt (SignalProtocolAddress user2 123),
             DecryptPreKeyWhisperMessage (SignalProtocolAddress user1 123),
             GetPreKeyBundle user1, ProcessPreKey (SignalProtocolAddress user1 123),
             Encrypt (SignalProtocolAddress user1 123),
             DecryptPreKeyWhisperMessage (SignalProtocolAddress user2 123)]
        \<and> loadSession (store m1) (SignalProtocolAddress user2 123) \<noteq> None
        \<and> loadSession (store m2) (SignalProtocolAddress user1 123) \<noteq> None)"
    by (simp add: runDemo_def model_defs)
  from runDemo_in_two_steps [of p seed] none first whole show ?thesis by blast
qed

text \<open>
  C2 as stated fails: in the run of the demo the reply's envelope is not an
  \<open>ORDINARY_MESSAGE\<close>, and a bundle is fetched after the first exchange.
\<close>

theorem C2_reply_is_prekey_message:
  "(case runDemo (Inl TypeError) 0 of
      (r, m1, m2, w) \<Rightarrow>
        (case r of
           Inl e \<Rightarrow> False
         | Inr d \<Rightarrow>
             type (encryptedMessage2 d) = PREKEY_MESSAGE
             \<and> type (encryptedMessage2 d) \<noteq> ORDINARY_MESSAGE)
        \<and> drop 6 (calls w) =
            [GetPreKeyBundle user1, ProcessPreKey (SignalProtocolAddress user1 123),
             Encrypt (SignalProtocolAddress user1 123),
             DecryptPreKeyWhisperMessage (SignalProtocolAddress user2 123)])"
  by code_simp

end
